theory Spec2Isabelle
  imports Main
begin

section \<open>JavaScript values\<close>

text \<open>
  Request bodies are parsed JSON or form data, so a body property holds any JSON value or
  is absent (\<open>undefined\<close>). Numbers are restricted to integers; object properties are an
  association list read with the first binding of a key.
\<close>

datatype jsval =
    JUndefined
  | JNull
  | JBool bool
  | JNum int
  | JStr string
  | JArr "jsval list"
  | JObj "(string \<times> jsval) list"

type_synonym jsobj = "(string \<times> jsval) list"

text \<open>Property read \<open>o.k\<close> on a plain object: \<open>undefined\<close> when the key is absent.\<close>

definition getProp :: "jsobj \<Rightarrow> string \<Rightarrow> jsval" where
  "getProp obj k = (case map_of obj k of None \<Rightarrow> JUndefined | Some v \<Rightarrow> v)"

text \<open>ToBoolean.\<close>

fun truthy :: "jsval \<Rightarrow> bool" where
  "truthy JUndefined = False"
| "truthy JNull = False"
| "truthy (JBool b) = b"
| "truthy (JNum n) = (n \<noteq> 0)"
| "truthy (JStr s) = (s \<noteq> [])"
| "truthy (JArr xs) = True"
| "truthy (JObj kvs) = True"

text \<open>\<open>a || b\<close>: the left operand itself when it is truthy, the right one otherwise.\<close>

definition js_or :: "jsval \<Rightarrow> jsval \<Rightarrow> jsval" where
  "js_or a b = (if truthy a then a else b)"

text \<open>
  \<open>v.length\<close> for a value that is neither \<open>undefined\<close> nor \<open>null\<close>: strings and arrays
  have their length, an object has whatever its \<open>length\<close> key holds, numbers and booleans
  have none.
\<close>

fun js_length :: "jsval \<Rightarrow> jsval" where
  "js_length (JStr s) = JNum (int (length s))"
| "js_length (JArr xs) = JNum (int (length xs))"
| "js_length (JObj kvs) = getProp kvs ''length''"
| "js_length v = JUndefined"

text \<open>
  \<open>v > 0\<close>. Numbers compare as they are, \<open>true\<close> is 1, \<open>false\<close>, \<open>null\<close> are 0 and
  \<open>undefined\<close> is NaN. Strings, arrays and objects go through the language's
  string-to-number coercion, which is left to the parameter \<open>coerce\<close>.
\<close>

fun js_gt0 :: "(jsval \<Rightarrow> bool) \<Rightarrow> jsval \<Rightarrow> bool" where
  "js_gt0 coerce (JNum n) = (0 < n)"
| "js_gt0 coerce (JBool b) = b"
| "js_gt0 coerce JUndefined = False"
| "js_gt0 coerce JNull = False"
| "js_gt0 coerce v = coerce v"

text \<open>
  \<open>String.prototype.trim\<close> strips white space and line terminators from both ends. A
  \<open>char\<close> is a code unit below 256, where these are TAB, LF, VT, FF, CR, SPACE and NBSP.
\<close>

definition js_ws :: "char \<Rightarrow> bool" where
  "js_ws c = (of_char c \<in> {9, 10, 11, 12, 13, 32, 160 :: nat})"

definition js_trim :: "string \<Rightarrow> string" where
  "js_trim s = rev (dropWhile js_ws (rev (dropWhile js_ws s)))"

section \<open>Errors and outcomes\<close>

text \<open>
  \<open>AppError msg status\<close> is the application's error class. The other constructors are
  what the runtime, the store or the token library throws: a \<open>TypeError\<close>, the
  \<open>SyntaxError\<close> of \<open>JSON.parse\<close>, a failure of a store operation (connection, cast
  or validation), and the two errors of token verification.
\<close>

datatype js_error =
    AppError string nat
  | TypeError
  | SyntaxError
  | StoreFault
  | JsonWebTokenError
  | TokenExpiredError

text \<open>
  Inside a handler a computation either goes on with a value, leaves the handler by
  \<open>return next(err)\<close>, or throws into the enclosing \<open>catch\<close>.
\<close>

datatype 'a step = Done 'a | Return js_error | Throw js_error

section \<open>Documents\<close>

record user =
  u_id :: string
  u_name :: jsval
  u_email :: jsval
  u_password :: jsval
  u_role :: jsval
  u_employeeId :: jsval
  u_department :: jsval
  u_phoneNumber :: jsval
  u_designation :: jsval
  u_isActive :: jsval
  u_otpEnabled :: jsval
  u_permissions :: jsval
  u_passwordChangedAt :: "int option"

record member =
  m_name :: jsval
  m_role :: jsval
  m_email :: jsval
  m_employeeId :: jsval
  m_department :: jsval
  m_designation :: jsval

record upload =
  filename :: string
  path :: string
  originalname :: string
  mimetype :: string
  file_size :: nat

text \<open>
  The member field holds the snapshots built by a handler, or the request's own value when
  \<open>updateCommittee\<close> assigns it without resolving it.
\<close>

datatype members_field = Snapshots "member list" | Raw jsval

record committee =
  c_id :: string
  c_name :: jsval
  c_purpose :: jsval
  c_formationDate :: jsval
  c_specificationSubmissionDate :: jsval
  c_reviewDate :: jsval
  c_schedule :: jsval
  c_members :: members_field
  c_createdBy :: string
  c_formationLetter :: "upload option"
  c_shouldNotify :: jsval
  c_approvalStatus :: jsval

text \<open>The creator as \<open>populate('createdBy', 'name email role employeeId')\<close> returns it.\<close>

record creator =
  cr_id :: string
  cr_name :: jsval
  cr_email :: jsval
  cr_role :: jsval
  cr_employeeId :: jsval

record world =
  users :: "user list"
  committees :: "committee list"
  files :: "string list"

section \<open>Environment\<close>

text \<open>The store operations a handler awaits; each may throw.\<close>

datatype dbop =
    FindUserByEmployeeId string
  | FindUserByEmail jsval
  | FindUserById string
  | CreateUser user
  | SaveUser user
  | DeleteUserById string
  | FindCommitteeById string
  | SaveCommittee committee
  | DeleteCommitteeById string

text \<open>A signed token of the token library, before serialisation.\<close>

record jwt =
  jwt_id :: string
  jwt_iat :: int
  jwt_exp :: "int option"
  jwt_key :: string

text \<open>
  What the handlers take from outside the two controllers:
  \<^item> \<open>jsonParse\<close>: \<open>JSON.parse\<close>, \<open>None\<close> when it throws;
  \<^item> \<open>coerceGt0\<close>: the outcome of \<open>v > 0\<close> for a string, array or object;
  \<^item> \<open>faults\<close>: whether a store operation throws (lost connection, cast error, schema
    validation, uniqueness);
  \<^item> \<open>newId\<close>: the identifier the store gives a new document;
  \<^item> \<open>schemaDefault\<close>: the value the schema gives a path the handler leaves out;
  \<^item> \<open>secret\<close>, \<open>expiresIn\<close>, \<open>nowMs\<close>: \<open>process.env.JWT_SECRET\<close>,
    \<open>process.env.JWT_EXPIRES_IN\<close> in seconds, and \<open>Date.now()\<close>;
  \<^item> \<open>serialise\<close>, \<open>parseToken\<close>: the token library's compact serialisation and its
    parser, \<open>None\<close> for a malformed string;
  \<^item> \<open>correctPassword\<close>: the user model's password comparison, \<open>None\<close> when it throws;
  \<^item> \<open>hashPassword\<close>: the hash the user model stores for a password.
\<close>

record env =
  jsonParse :: "string \<Rightarrow> jsval option"
  coerceGt0 :: "jsval \<Rightarrow> bool"
  faults :: "dbop \<Rightarrow> bool"
  newId :: string
  schemaDefault :: "string \<Rightarrow> jsval"
  secret :: string
  expiresIn :: "int option"
  nowMs :: int
  serialise :: "jwt \<Rightarrow> string"
  parseToken :: "string \<Rightarrow> jwt option"
  correctPassword :: "jsval \<Rightarrow> jsval \<Rightarrow> bool option"
  hashPassword :: "jsval \<Rightarrow> jsval"

section \<open>Requests, effects and results\<close>

record request =
  body :: jsobj
  params :: "string \<Rightarrow> string"
  req_file :: "upload option"
  req_user :: "user option"
  authorization :: "string option"
  cookie_jwt :: "string option"

text \<open>The effects of a handler, in the order it performs them.\<close>

datatype event =
    EvFindUser string
  | EvFindCommittee string
  | EvSaveCommittee string
  | EvUnlink string
  | EvNotify "jsval list"
  | EvCookie string string int

datatype resp_body =
    BodyCommittee "committee option" "creator option"
  | BodyAuth string user
  | BodyUser user
  | BodyMessage string

text \<open>
  How a handler ends: \<open>next(err)\<close>, a response with its status, or \<open>next()\<close> with the
  user the guard attached to the request.
\<close>

datatype outcome =
    Next js_error
  | Respond nat resp_body
  | Proceed user

record result =
  r_world :: world
  r_trace :: "event list"
  r_outcome :: outcome

section \<open>Store queries\<close>

definition findUserByEmployeeId :: "user list \<Rightarrow> string \<Rightarrow> user option" where
  "findUserByEmployeeId us e = find (\<lambda>u. u_employeeId u = JStr e) us"

definition findUserById :: "user list \<Rightarrow> string \<Rightarrow> user option" where
  "findUserById us i = find (\<lambda>u. u_id u = i) us"

text \<open>Query values are compared by equality; operator objects are not interpreted.\<close>

definition findUserByEmail :: "user list \<Rightarrow> jsval \<Rightarrow> user option" where
  "findUserByEmail us e = find (\<lambda>u. u_email u = e) us"

definition findCommitteeById :: "committee list \<Rightarrow> string \<Rightarrow> committee option" where
  "findCommitteeById cs i = find (\<lambda>c. c_id c = i) cs"

definition populateCreatedBy :: "user list \<Rightarrow> string \<Rightarrow> creator option" where
  "populateCreatedBy us i =
     map_option (\<lambda>u. \<lparr>cr_id = u_id u, cr_name = u_name u, cr_email = u_email u,
                      cr_role = u_role u, cr_employeeId = u_employeeId u\<rparr>)
       (findUserById us i)"

text \<open>\<open>doc.save()\<close>: a new document is added, an existing one replaced under its id.\<close>

definition saveCommittee :: "committee \<Rightarrow> committee list \<Rightarrow> committee list" where
  "saveCommittee c cs =
     (if findCommitteeById cs (c_id c) = None then cs @ [c]
      else map (\<lambda>d. if c_id d = c_id c then c else d) cs)"

section \<open>Committee controller: member resolution\<close>

text \<open>
  \<open>members && members.length > 0\<close>
\<close>

definition membersGiven :: "env \<Rightarrow> jsval \<Rightarrow> bool" where
  "membersGiven e members = (truthy members \<and> js_gt0 (coerceGt0 e) (js_length members))"

text \<open>
  \<open>typeof members === 'string' ? JSON.parse(members) : members\<close>
\<close>

definition memberData :: "env \<Rightarrow> jsval \<Rightarrow> js_error + jsval" where
  "memberData e members =
     (case members of
        JStr s \<Rightarrow> (case jsonParse e s of None \<Rightarrow> Inl SyntaxError | Some v \<Rightarrow> Inr v)
      | _ \<Rightarrow> Inr members)"

text \<open>
  \<open>m => typeof m === 'string' ? m : (m.employeeId || '')\<close>. Reading a property of
  \<open>undefined\<close> or \<open>null\<close> throws; a number, a boolean and an array have no such property.
\<close>

fun memberId :: "jsval \<Rightarrow> js_error + jsval" where
  "memberId (JStr s) = Inr (JStr s)"
| "memberId JUndefined = Inl TypeError"
| "memberId JNull = Inl TypeError"
| "memberId (JObj kvs) = Inr (js_or (getProp kvs ''employeeId'') (JStr ''''))"
| "memberId v = Inr (js_or JUndefined (JStr ''''))"

fun mapMemberIds :: "jsval list \<Rightarrow> js_error + jsval list" where
  "mapMemberIds [] = Inr []"
| "mapMemberIds (m # ms) =
     (case memberId m of
        Inl err \<Rightarrow> Inl err
      | Inr i \<Rightarrow> (case mapMemberIds ms of Inl err \<Rightarrow> Inl err | Inr is \<Rightarrow> Inr (i # is)))"

text \<open>\<open>memberData.map(...)\<close>: only an array has \<open>map\<close>.\<close>

fun memberIds :: "jsval \<Rightarrow> js_error + jsval list" where
  "memberIds (JArr ms) = mapMemberIds ms"
| "memberIds v = Inl TypeError"

text \<open>
  \<open>typeof id === 'string' && id.trim() !== ''\<close>
\<close>

fun validMemberId :: "jsval \<Rightarrow> bool" where
  "validMemberId (JStr s) = (js_trim s \<noteq> [])"
| "validMemberId v = False"

text \<open>The identifiers of a list that passed the check, as strings.\<close>

fun idStrings :: "jsval list \<Rightarrow> string list" where
  "idStrings [] = []"
| "idStrings (JStr s # vs) = s # idStrings vs"
| "idStrings (v # vs) = idStrings vs"

definition snapshot :: "user \<Rightarrow> member" where
  "snapshot u =
     \<lparr>m_name = u_name u, m_role = u_role u, m_email = u_email u,
      m_employeeId = u_employeeId u, m_department = u_department u,
      m_designation = u_designation u\<rparr>"

definition notFoundMessage :: "string \<Rightarrow> string" where
  "notFoundMessage employeeId = ''User with employee ID '' @ employeeId @ '' not found''"

text \<open>
  The \<open>for\<close> loop over the identifiers: one store lookup each, stopping at the first
  identifier without a user.
\<close>

fun lookupMembers :: "env \<Rightarrow> user list \<Rightarrow> string list \<Rightarrow> event list \<times> member list step" where
  "lookupMembers e us [] = ([], Done [])"
| "lookupMembers e us (employeeId # rest) =
     (if faults e (FindUserByEmployeeId employeeId)
      then ([EvFindUser employeeId], Throw StoreFault)
      else case findUserByEmployeeId us employeeId of
        None \<Rightarrow> ([EvFindUser employeeId], Return (AppError (notFoundMessage employeeId) 404))
      | Some u \<Rightarrow>
          (case lookupMembers e us rest of
             (evs, Done ms) \<Rightarrow> (EvFindUser employeeId # evs, Done (snapshot u # ms))
           | (evs, Return err) \<Rightarrow> (EvFindUser employeeId # evs, Return err)
           | (evs, Throw err) \<Rightarrow> (EvFindUser employeeId # evs, Throw err)))"

text \<open>The identifiers a member value resolves to, or what parsing and mapping throw.\<close>

definition resolvedIds :: "env \<Rightarrow> jsval \<Rightarrow> js_error + jsval list" where
  "resolvedIds e members =
     (case memberData e members of Inl err \<Rightarrow> Inl err | Inr md \<Rightarrow> memberIds md)"

text \<open>The body of \<open>if (members && members.length > 0) { ... }\<close>, the same in both handlers.\<close>

definition resolveMembers :: "env \<Rightarrow> user list \<Rightarrow> jsval \<Rightarrow> event list \<times> member list step" where
  "resolveMembers e us members =
     (case resolvedIds e members of
        Inl err \<Rightarrow> ([], Throw err)
      | Inr ids \<Rightarrow>
          if \<not> list_all validMemberId ids
          then ([], Return (AppError ''All member IDs must be non-empty strings'' 400))
          else lookupMembers e us (idStrings ids))"

section \<open>Committee controller: createCommittee\<close>

definition newCommittee :: "env \<Rightarrow> request \<Rightarrow> user \<Rightarrow> member list \<Rightarrow> committee" where
  "newCommittee e req u membersArray =
     \<lparr>c_id = newId e,
      c_name = getProp (body req) ''name'',
      c_purpose = getProp (body req) ''purpose'',
      c_formationDate = getProp (body req) ''formationDate'',
      c_specificationSubmissionDate = getProp (body req) ''specificationSubmissionDate'',
      c_reviewDate = getProp (body req) ''reviewDate'',
      c_schedule = getProp (body req) ''schedule'',
      c_members = Snapshots membersArray,
      c_createdBy = u_id u,
      c_formationLetter =
        map_option (\<lambda>f. \<lparr>filename = filename f, path = path f,
                            originalname = originalname f, mimetype = mimetype f,
                            file_size = file_size f\<rparr>) (req_file req),
      c_shouldNotify = schemaDefault e ''shouldNotify'',
      c_approvalStatus = schemaDefault e ''approvalStatus''\<rparr>"

text \<open>
  \<open>sendCommitteeNotifications\<close> catches its own errors: it mails every member snapshot and
  never fails its caller.
\<close>

definition memberEmails :: "committee option \<Rightarrow> jsval list" where
  "memberEmails c =
     (case c of
        Some d \<Rightarrow> (case c_members d of Snapshots ms \<Rightarrow> map m_email ms | Raw v \<Rightarrow> [])
      | None \<Rightarrow> [])"

definition notifyEvents :: "jsval \<Rightarrow> committee option \<Rightarrow> event list" where
  "notifyEvents shouldNotify c =
     (if shouldNotify = JStr ''true'' then [EvNotify (memberEmails c)] else [])"

text \<open>
  From \<open>new Committee\<close> to the response: save, read back with the creator populated,
  notify, answer.
\<close>

definition persistAndRespond ::
  "env \<Rightarrow> world \<Rightarrow> request \<Rightarrow> committee \<Rightarrow> nat \<Rightarrow> world \<times> event list \<times> outcome step" where
  "persistAndRespond e w req c status =
     (if faults e (SaveCommittee c) then (w, [], Throw StoreFault)
      else
        let w' = w\<lparr>committees := saveCommittee c (committees w)\<rparr> in
        if faults e (FindCommitteeById (c_id c))
        then (w', [EvSaveCommittee (c_id c), EvFindCommittee (c_id c)], Throw StoreFault)
        else
          let populated = findCommitteeById (committees w') (c_id c);
              cr = (case populated of None \<Rightarrow> None
                    | Some d \<Rightarrow> populateCreatedBy (users w') (c_createdBy d))
          in (w',
              [EvSaveCommittee (c_id c), EvFindCommittee (c_id c)]
                @ notifyEvents (getProp (body req) ''shouldNotify'') populated,
              Done (Respond status (BodyCommittee populated cr))))"

text \<open>The \<open>try\<close> block of \<open>createCommittee\<close>.\<close>

definition tryCreateCommittee :: "env \<Rightarrow> world \<Rightarrow> request \<Rightarrow> world \<times> event list \<times> outcome step" where
  "tryCreateCommittee e w req =
     (let members = getProp (body req) ''members'';
          (evs, r) = (if membersGiven e members then resolveMembers e (users w) members
                      else ([], Done []))
      in case r of
           Return err \<Rightarrow> (w, evs, Return err)
         | Throw err \<Rightarrow> (w, evs, Throw err)
         | Done membersArray \<Rightarrow>
             (case req_user req of
                None \<Rightarrow> (w, evs, Throw TypeError)
              | Some u \<Rightarrow>
                  (case persistAndRespond e w req (newCommittee e req u membersArray) 201 of
                     (w', evs', r') \<Rightarrow> (w', evs @ evs', r'))))"

text \<open>
  The whole handler. Only an error thrown inside \<open>try\<close> reaches the \<open>catch\<close> block, which
  unlinks the uploaded file and passes the error on; \<open>return next(...)\<close> leaves the handler
  from inside \<open>try\<close> without entering it.
\<close>

definition createCommittee :: "env \<Rightarrow> world \<Rightarrow> request \<Rightarrow> result" where
  "createCommittee e w req =
     (case tryCreateCommittee e w req of
        (w', evs, Done out) \<Rightarrow> \<lparr>r_world = w', r_trace = evs, r_outcome = out\<rparr>
      | (w', evs, Return err) \<Rightarrow> \<lparr>r_world = w', r_trace = evs, r_outcome = Next err\<rparr>
      | (w', evs, Throw err) \<Rightarrow>
          (case req_file req of
             Some f \<Rightarrow>
               \<lparr>r_world = w'\<lparr>files := removeAll (path f) (files w')\<rparr>,
                r_trace = evs @ [EvUnlink (path f)],
                r_outcome = Next err\<rparr>
           | None \<Rightarrow> \<lparr>r_world = w', r_trace = evs, r_outcome = Next err\<rparr>))"

section \<open>Committee controller: updateCommittee\<close>

text \<open>
  \<open>allowedUpdates\<close> with its undefined entries deleted, merged by \<open>Object.assign\<close>: a key
  of the whitelist that the body defines replaces the document's value, any other value
  stays.
\<close>

definition assignField :: "request \<Rightarrow> string \<Rightarrow> jsval \<Rightarrow> jsval" where
  "assignField req k old = (if getProp (body req) k = JUndefined then old else getProp (body req) k)"

definition assignUpdates :: "request \<Rightarrow> members_field option \<Rightarrow> committee \<Rightarrow> committee" where
  "assignUpdates req membersUpdate c =
     c\<lparr>c_name := assignField req ''name'' (c_name c),
       c_purpose := assignField req ''purpose'' (c_purpose c),
       c_formationDate := assignField req ''formationDate'' (c_formationDate c),
       c_specificationSubmissionDate :=
         assignField req ''specificationSubmissionDate'' (c_specificationSubmissionDate c),
       c_reviewDate := assignField req ''reviewDate'' (c_reviewDate c),
       c_schedule := assignField req ''schedule'' (c_schedule c),
       c_members := (case membersUpdate of None \<Rightarrow> c_members c | Some m \<Rightarrow> m),
       c_shouldNotify := assignField req ''shouldNotify'' (c_shouldNotify c),
       c_approvalStatus := assignField req ''approvalStatus'' (c_approvalStatus c)\<rparr>"

text \<open>
  \<open>allowedUpdates.members\<close> after the resolution block: the snapshots when the block ran,
  the body's own value when it is defined and the block was skipped, no entry otherwise.
\<close>

definition unresolvedMembers :: "jsval \<Rightarrow> members_field option" where
  "unresolvedMembers members = (if members = JUndefined then None else Some (Raw members))"

definition tryUpdateCommittee :: "env \<Rightarrow> world \<Rightarrow> request \<Rightarrow> world \<times> event list \<times> outcome step" where
  "tryUpdateCommittee e w req =
     (let id = params req ''id'' in
      if faults e (FindCommitteeById id) then (w, [EvFindCommittee id], Throw StoreFault)
      else case findCommitteeById (committees w) id of
        None \<Rightarrow> (w, [EvFindCommittee id], Return (AppError ''No committee found with that ID'' 404))
      | Some committee \<Rightarrow>
          (let members = getProp (body req) ''members'';
               (evs, r) = (if membersGiven e members
                           then (case resolveMembers e (users w) members of
                                   (evs, Done ms) \<Rightarrow> (evs, Done (Some (Snapshots ms)))
                                 | (evs, Return err) \<Rightarrow> (evs, Return err)
                                 | (evs, Throw err) \<Rightarrow> (evs, Throw err))
                           else ([], Done (unresolvedMembers members)))
           in case r of
                Return err \<Rightarrow> (w, EvFindCommittee id # evs, Return err)
              | Throw err \<Rightarrow> (w, EvFindCommittee id # evs, Throw err)
              | Done membersUpdate \<Rightarrow>
                  (case persistAndRespond e w req (assignUpdates req membersUpdate committee) 200 of
                     (w', evs', Done out) \<Rightarrow>
                       (case req_user req of
                          None \<Rightarrow> (w', EvFindCommittee id # evs @ evs', Throw TypeError)
                        | Some u \<Rightarrow> (w', EvFindCommittee id # evs @ evs', Done out))
                   | (w', evs', r') \<Rightarrow> (w', EvFindCommittee id # evs @ evs', r'))))"

text \<open>Here the \<open>catch\<close> block replaces whatever was thrown by a 500 and unlinks nothing.\<close>

definition updateCommittee :: "env \<Rightarrow> world \<Rightarrow> request \<Rightarrow> result" where
  "updateCommittee e w req =
     (case tryUpdateCommittee e w req of
        (w', evs, Done out) \<Rightarrow> \<lparr>r_world = w', r_trace = evs, r_outcome = out\<rparr>
      | (w', evs, Return err) \<Rightarrow> \<lparr>r_world = w', r_trace = evs, r_outcome = Next err\<rparr>
      | (w', evs, Throw err) \<Rightarrow>
          \<lparr>r_world = w', r_trace = evs,
           r_outcome = Next (AppError ''Failed to update committee'' 500)\<rparr>)"

section \<open>Token library\<close>

text \<open>
  The two calls the auth controller makes into the token library. \<open>sign\<close> stamps the
  payload with the issue time in seconds and adds an expiry only when it is given a
  lifetime. \<open>verify\<close> rejects a token signed with another key, and a token that carries an
  expiry once the clock has reached it.
\<close>

definition jwt_sign :: "string \<Rightarrow> string \<Rightarrow> int option \<Rightarrow> int \<Rightarrow> jwt" where
  "jwt_sign i key lifetime now =
     \<lparr>jwt_id = i, jwt_iat = now, jwt_exp = map_option (\<lambda>d. now + d) lifetime, jwt_key = key\<rparr>"

definition jwt_verify :: "jwt \<Rightarrow> string \<Rightarrow> int \<Rightarrow> js_error + jwt" where
  "jwt_verify t key now =
     (if jwt_key t \<noteq> key then Inl JsonWebTokenError
      else case jwt_exp t of
        None \<Rightarrow> Inr t
      | Some x \<Rightarrow> if x \<le> now then Inl TokenExpiredError else Inr t)"

definition clock :: "env \<Rightarrow> int" where
  "clock e = nowMs e div 1000"

text \<open>\<open>jwt.verify(token, process.env.JWT_SECRET)\<close> on the string a request carries.\<close>

definition verifyToken :: "env \<Rightarrow> string \<Rightarrow> js_error + jwt" where
  "verifyToken e s =
     (case parseToken e s of
        None \<Rightarrow> Inl JsonWebTokenError
      | Some t \<Rightarrow> jwt_verify t (secret e) (clock e))"

section \<open>Auth controller: issuing tokens\<close>

definition signToken :: "env \<Rightarrow> string \<Rightarrow> string" where
  "signToken e i = serialise e (jwt_sign i (secret e) (expiresIn e) (clock e))"

definition issuedToken :: "env \<Rightarrow> user \<Rightarrow> jwt" where
  "issuedToken e u = jwt_sign (u_id u) (secret e) None (clock e)"

definition createSendToken :: "env \<Rightarrow> world \<Rightarrow> user \<Rightarrow> nat \<Rightarrow> result" where
  "createSendToken e w u statusCode =
     (let token = serialise e (issuedToken e u) in
      \<lparr>r_world = w,
       r_trace = [EvCookie ''jwt'' token (nowMs e + 24 * 60 * 60 * 1000)],
       r_outcome = Respond statusCode (BodyAuth token (u\<lparr>u_password := JUndefined\<rparr>))\<rparr>)"

text \<open>
  \<open>catchAsync\<close> hands whatever its handler throws to \<open>next\<close>.
\<close>

definition thrown :: "world \<Rightarrow> js_error \<Rightarrow> result" where
  "thrown w err = \<lparr>r_world = w, r_trace = [], r_outcome = Next err\<rparr>"

section \<open>Auth controller: register and login\<close>

text \<open>
  The document handed to \<open>User.create\<close>. The stored password is the model's hash of the
  given one, the permissions are the schema's default, and a new user has no
  password-change time.
\<close>

definition registeredUser :: "env \<Rightarrow> request \<Rightarrow> user" where
  "registeredUser e req =
     \<lparr>u_id = newId e,
      u_name = getProp (body req) ''name'',
      u_email = getProp (body req) ''email'',
      u_password = hashPassword e (getProp (body req) ''password''),
      u_role = getProp (body req) ''role'',
      u_employeeId = getProp (body req) ''employeeId'',
      u_department = getProp (body req) ''department'',
      u_phoneNumber = getProp (body req) ''phoneNumber'',
      u_designation = getProp (body req) ''designation'',
      u_isActive = js_or (getProp (body req) ''isActive'') (JBool True),
      u_otpEnabled = js_or (getProp (body req) ''otpEnabled'') (JBool False),
      u_permissions = schemaDefault e ''permissions'',
      u_passwordChangedAt = None\<rparr>"

definition register :: "env \<Rightarrow> world \<Rightarrow> request \<Rightarrow> result" where
  "register e w req =
     (let newUser = registeredUser e req in
      if faults e (CreateUser newUser) then thrown w StoreFault
      else createSendToken e (w\<lparr>users := users w @ [newUser]\<rparr>) newUser 201)"

definition login :: "env \<Rightarrow> world \<Rightarrow> request \<Rightarrow> result" where
  "login e w req =
     (let email = getProp (body req) ''email'';
          password = getProp (body req) ''password''
      in
      if \<not> truthy email \<or> \<not> truthy password
      then \<lparr>r_world = w, r_trace = [],
            r_outcome = Next (AppError ''Please provide email and password!'' 400)\<rparr>
      else if faults e (FindUserByEmail email) then thrown w StoreFault
      else case findUserByEmail (users w) email of
        None \<Rightarrow> \<lparr>r_world = w, r_trace = [],
                  r_outcome = Next (AppError ''Incorrect email or password'' 401)\<rparr>
      | Some u \<Rightarrow>
          (case correctPassword e password (u_password u) of
             None \<Rightarrow> thrown w TypeError
           | Some False \<Rightarrow> \<lparr>r_world = w, r_trace = [],
                            r_outcome = Next (AppError ''Incorrect email or password'' 401)\<rparr>
           | Some True \<Rightarrow>
               if \<not> truthy (u_isActive u)
               then \<lparr>r_world = w, r_trace = [],
                     r_outcome = Next (AppError ''Your account has been deactivated'' 401)\<rparr>
               else createSendToken e w u 200))"

section \<open>Auth controller: the route guard\<close>

text \<open>\<open>s.split(' ')\<close>: the pieces between single spaces, empty pieces included.\<close>

fun splitSpace :: "string \<Rightarrow> string list" where
  "splitSpace [] = [[]]"
| "splitSpace (c # cs) =
     (if c = CHR '' '' then [] # splitSpace cs
      else case splitSpace cs of
        [] \<Rightarrow> [[c]]
      | p # ps \<Rightarrow> (c # p) # ps)"

text \<open>
  The token of a request: the second piece of an authorization header that starts with
  \<open>Bearer\<close>, else a non-empty \<open>jwt\<close> cookie. \<open>None\<close> is \<open>undefined\<close>.
\<close>

definition startsWith :: "string \<Rightarrow> string \<Rightarrow> bool" where
  "startsWith s p = (take (length p) s = p)"

definition getToken :: "request \<Rightarrow> string option" where
  "getToken req =
     (case authorization req of
        Some h \<Rightarrow>
          if startsWith h ''Bearer''
          then (case splitSpace h of a # t # rest \<Rightarrow> Some t | _ \<Rightarrow> None)
          else (case cookie_jwt req of
                  Some c \<Rightarrow> if c \<noteq> [] then Some c else None
                | None \<Rightarrow> None)
      | None \<Rightarrow>
          (case cookie_jwt req of
             Some c \<Rightarrow> if c \<noteq> [] then Some c else None
           | None \<Rightarrow> None))"

text \<open>
  Modelled from the spec: the user model's \<open>changedPasswordAfter\<close> is not among the
  sources. The spec has the guard reject a token "issued before the user's last password
  change": the method holds when the user has a password-change time and the token's issue
  time lies before it.
\<close>

definition changedPasswordAfter :: "user \<Rightarrow> int \<Rightarrow> bool" where
  "changedPasswordAfter u iat =
     (case u_passwordChangedAt u of None \<Rightarrow> False | Some changed \<Rightarrow> iat < changed)"

definition reject :: "world \<Rightarrow> string \<Rightarrow> nat \<Rightarrow> result" where
  "reject w msg status = \<lparr>r_world = w, r_trace = [], r_outcome = Next (AppError msg status)\<rparr>"

definition protect :: "env \<Rightarrow> world \<Rightarrow> request \<Rightarrow> result" where
  "protect e w req =
     (case getToken req of
        None \<Rightarrow> reject w ''Authentication required'' 401
      | Some token \<Rightarrow>
          if token = [] then reject w ''Authentication required'' 401
          else case verifyToken e token of
            Inl err \<Rightarrow> reject w ''Invalid or expired token'' 401
          | Inr decoded \<Rightarrow>
              if faults e (FindUserById (jwt_id decoded))
              then reject w ''Invalid or expired token'' 401
              else case findUserById (users w) (jwt_id decoded) of
                None \<Rightarrow> reject w ''User no longer exists'' 401
              | Some currentUser \<Rightarrow>
                  if changedPasswordAfter currentUser (jwt_iat decoded)
                  then reject w ''Password changed - please log in again'' 401
                  else \<lparr>r_world = w, r_trace = [], r_outcome = Proceed currentUser\<rparr>)"

section \<open>Auth controller: user administration\<close>

definition saveUser :: "user \<Rightarrow> user list \<Rightarrow> user list" where
  "saveUser u us = map (\<lambda>v. if u_id v = u_id u then u else v) us"

definition assignUserUpdates :: "request \<Rightarrow> user \<Rightarrow> user" where
  "assignUserUpdates req u =
     u\<lparr>u_name := assignField req ''name'' (u_name u),
       u_email := assignField req ''email'' (u_email u),
       u_role := assignField req ''role'' (u_role u),
       u_department := assignField req ''department'' (u_department u),
       u_phoneNumber := assignField req ''phoneNumber'' (u_phoneNumber u),
       u_designation := assignField req ''designation'' (u_designation u),
       u_isActive := assignField req ''isActive'' (u_isActive u),
       u_otpEnabled := assignField req ''otpEnabled'' (u_otpEnabled u),
       u_permissions := assignField req ''permissions'' (u_permissions u)\<rparr>"

definition updateUser :: "env \<Rightarrow> world \<Rightarrow> request \<Rightarrow> result" where
  "updateUser e w req =
     (let userId = params req ''userId'' in
      if faults e (FindUserById userId) then reject w ''Error updating user'' 400
      else case findUserById (users w) userId of
        None \<Rightarrow> reject w ''No user found with that ID'' 404
      | Some u \<Rightarrow>
          (let u' = assignUserUpdates req u in
           if faults e (SaveUser u') then reject w ''Error updating user'' 400
           else
             let w' = w\<lparr>users := saveUser u' (users w)\<rparr> in
             case req_user req of
               None \<Rightarrow> reject w' ''Error updating user'' 400
             | Some admin \<Rightarrow>
                 \<lparr>r_world = w', r_trace = [],
                  r_outcome = Respond 200 (BodyUser (u'\<lparr>u_password := JUndefined\<rparr>))\<rparr>))"

definition assignOwnUpdates :: "request \<Rightarrow> user \<Rightarrow> user" where
  "assignOwnUpdates req u =
     u\<lparr>u_name := assignField req ''name'' (u_name u),
       u_email := assignField req ''email'' (u_email u),
       u_department := assignField req ''department'' (u_department u),
       u_phoneNumber := assignField req ''phoneNumber'' (u_phoneNumber u),
       u_designation := assignField req ''designation'' (u_designation u),
       u_otpEnabled := assignField req ''otpEnabled'' (u_otpEnabled u)\<rparr>"

definition updateMe :: "env \<Rightarrow> world \<Rightarrow> request \<Rightarrow> result" where
  "updateMe e w req =
     (if truthy (getProp (body req) ''password'') \<or> truthy (getProp (body req) ''role'')
         \<or> truthy (getProp (body req) ''permissions'') \<or> truthy (getProp (body req) ''isActive'')
      then reject w ''This route is not for password, role, permissions, or status updates'' 400
      else case req_user req of
        None \<Rightarrow> reject w ''Error updating your profile'' 400
      | Some me \<Rightarrow>
          if faults e (FindUserById (u_id me)) then reject w ''Error updating your profile'' 400
          else case findUserById (users w) (u_id me) of
            None \<Rightarrow> reject w ''User not found'' 404
          | Some u \<Rightarrow>
              (let u' = assignOwnUpdates req u in
               if faults e (SaveUser u') then reject w ''Error updating your profile'' 400
               else \<lparr>r_world = w\<lparr>users := saveUser u' (users w)\<rparr>, r_trace = [],
                     r_outcome = Respond 200 (BodyUser (u'\<lparr>u_password := JUndefined\<rparr>))\<rparr>))"

definition deleteUser :: "env \<Rightarrow> world \<Rightarrow> request \<Rightarrow> result" where
  "deleteUser e w req =
     (let userId = params req ''userId'' in
      if faults e (FindUserById userId) then reject w ''Error deleting user'' 400
      else case findUserById (users w) userId of
        None \<Rightarrow> reject w ''No user found with that ID'' 404
      | Some u \<Rightarrow>
          (case req_user req of
             None \<Rightarrow> reject w ''Error deleting user'' 400
           | Some requester \<Rightarrow>
               if u_id u = u_id requester
               then reject w ''You cannot delete your own account'' 403
               else if faults e (DeleteUserById userId) then reject w ''Error deleting user'' 400
               else \<lparr>r_world = w\<lparr>users := filter (\<lambda>v. u_id v \<noteq> userId) (users w)\<rparr>,
                     r_trace = [],
                     r_outcome = Respond 204 (BodyMessage ''User deleted successfully'')\<rparr>))"

section \<open>Derived notions used in the statements\<close>

text \<open>The first identifier of a list that has no user in the store.\<close>

definition firstMissing :: "user list \<Rightarrow> string list \<Rightarrow> string option" where
  "firstMissing us ids = find (\<lambda>i. findUserByEmployeeId us i = None) ids"

text \<open>A result hands out a session token when it sets the cookie or answers with a token.\<close>

fun isCookie :: "event \<Rightarrow> bool" where
  "isCookie (EvCookie n v x) = True"
| "isCookie ev = False"

fun carriesToken :: "outcome \<Rightarrow> bool" where
  "carriesToken (Respond status (BodyAuth t u)) = True"
| "carriesToken out = False"

definition tokenIssued :: "result \<Rightarrow> bool" where
  "tokenIssued r = (list_ex isCookie (r_trace r) \<or> carriesToken (r_outcome r))"

section \<open>Sample data\<close>

text \<open>
  An environment in which the store answers every operation, \<open>JSON.parse\<close> accepts one
  text, passwords are stored as they are and every token serialises to \<open>tok\<close>. Its clock
  stands at 7000 s, and the string \<open>tok\<close> parses to a token issued to Bob at 5000 s.
\<close>

definition env0 :: env where
  "env0 =
     \<lparr>jsonParse = (\<lambda>s. if s = ''[\"E100\"]'' then Some (JArr [JStr ''E100'']) else None),
      coerceGt0 = (\<lambda>v. False),
      faults = (\<lambda>x. False),
      newId = ''c1'',
      schemaDefault = (\<lambda>k. JUndefined),
      secret = ''s3cret'',
      expiresIn = Some 3600,
      nowMs = 7000000,
      serialise = (\<lambda>t. ''tok''),
      parseToken = (\<lambda>s. if s = ''tok''
                          then Some \<lparr>jwt_id = ''u2'', jwt_iat = 5000, jwt_exp = None,
                                     jwt_key = ''s3cret''\<rparr>
                          else None),
      correctPassword = (\<lambda>p h. Some (p = h)),
      hashPassword = (\<lambda>p. p)\<rparr>"

definition alice :: user where
  "alice =
     \<lparr>u_id = ''u1'', u_name = JStr ''Alice'', u_email = JStr ''alice@example.org'',
      u_password = JStr ''pw-alice'', u_role = JStr ''staff'', u_employeeId = JStr ''E100'',
      u_department = JStr ''Procurement'', u_phoneNumber = JStr ''100'',
      u_designation = JStr ''Officer'', u_isActive = JBool True, u_otpEnabled = JBool False,
      u_permissions = JArr [], u_passwordChangedAt = None\<rparr>"

definition bob :: user where
  "bob =
     \<lparr>u_id = ''u2'', u_name = JStr ''Bob'', u_email = JStr ''bob@example.org'',
      u_password = JStr ''pw-bob'', u_role = JStr ''staff'', u_employeeId = JStr ''E101'',
      u_department = JStr ''Finance'', u_phoneNumber = JStr ''101'',
      u_designation = JStr ''Clerk'', u_isActive = JBool False, u_otpEnabled = JBool False,
      u_permissions = JArr [], u_passwordChangedAt = Some 6000\<rparr>"

definition carol :: user where
  "carol =
     \<lparr>u_id = ''u3'', u_name = JStr ''Carol'', u_email = JStr ''carol@example.org'',
      u_password = JStr ''pw-carol'', u_role = JStr ''admin'', u_employeeId = JStr ''E102'',
      u_department = JStr ''Audit'', u_phoneNumber = JStr ''102'',
      u_designation = JStr ''Head'', u_isActive = JBool True, u_otpEnabled = JBool False,
      u_permissions = JArr [], u_passwordChangedAt = None\<rparr>"

definition letter :: upload where
  "letter =
     \<lparr>filename = ''letter.pdf'', path = ''uploads/letter.pdf'', originalname = ''Letter.pdf'',
      mimetype = ''application/pdf'', file_size = 1024\<rparr>"

definition board :: committee where
  "board =
     \<lparr>c_id = ''c7'', c_name = JStr ''Board'', c_purpose = JStr ''Review'',
      c_formationDate = JStr ''2024-01-01'', c_specificationSubmissionDate = JStr ''2024-02-01'',
      c_reviewDate = JStr ''2024-03-01'', c_schedule = JStr ''weekly'',
      c_members = Snapshots [snapshot alice], c_createdBy = ''u1'',
      c_formationLetter = Some letter, c_shouldNotify = JUndefined,
      c_approvalStatus = JStr ''pending''\<rparr>"

definition panel :: committee where
  "panel =
     \<lparr>c_id = ''c8'', c_name = JStr ''Panel'', c_purpose = JStr ''Evaluation'',
      c_formationDate = JStr ''2024-04-01'', c_specificationSubmissionDate = JStr ''2024-05-01'',
      c_reviewDate = JStr ''2024-06-01'', c_schedule = JStr ''monthly'',
      c_members = Snapshots [snapshot alice, snapshot carol], c_createdBy = ''u3'',
      c_formationLetter = None, c_shouldNotify = JUndefined,
      c_approvalStatus = JStr ''pending''\<rparr>"

definition world1 :: world where
  "world1 =
     \<lparr>users = [alice, bob, carol], committees = [board, panel],
      files = [''uploads/letter.pdf'']\<rparr>"

text \<open>
  A request of Carol with an empty body; the route parameters name committee \<open>c7\<close> and
  user \<open>u1\<close>.
\<close>

definition request0 :: request where
  "request0 =
     \<lparr>body = [], params = (\<lambda>k. if k = ''userId'' then ''u1'' else ''c7''),
      req_file = None, req_user = Some carol, authorization = None, cookie_jwt = None\<rparr>"

text \<open>
  A much later moment with the same secret, at which \<open>tok\<close> parses to the token that
  \<open>createSendToken\<close> issued to Alice under \<open>env0\<close>.
\<close>

definition later :: env where
  "later =
     env0\<lparr>nowMs := 4000000000000,
          parseToken := (\<lambda>s. if s = ''tok'' then Some (issuedToken env0 alice) else None)\<rparr>"

definition withMembers :: "jsval \<Rightarrow> request" where
  "withMembers m = request0\<lparr>body := [(''members'', m)]\<rparr>"

text \<open>Further requests: credentials for login and register, a rename of Alice by an
  administrator, the store after it, and an update of committee \<open>c8\<close> with Alice's
  identifier.\<close>

definition credentials :: "jsobj \<Rightarrow> request" where
  "credentials b = request0\<lparr>body := b, req_user := None\<rparr>"

definition rename :: request where
  "rename = request0\<lparr>body := [(''name'', JStr ''Alicia'')]\<rparr>"

definition renamed :: world where
  "renamed = r_world (updateUser env0 world1 rename)"

definition refresh :: request where
  "refresh = (withMembers (JArr [JStr ''E100'']))\<lparr>params := (\<lambda>k. ''c8'')\<rparr>"

section \<open>Unfolding rules\<close>

lemmas sample_defs =
  env0_def alice_def bob_def carol_def letter_def board_def panel_def world1_def request0_def
  withMembers_def later_def

lemmas js_defs = getProp_def js_or_def js_trim_def js_ws_def

lemmas auth_defs =
  login_def register_def registeredUser_def createSendToken_def issuedToken_def jwt_sign_def
  jwt_verify_def verifyToken_def clock_def thrown_def reject_def protect_def getToken_def
  startsWith_def changedPasswordAfter_def findUserByEmail_def tokenIssued_def deleteUser_def
  updateUser_def updateMe_def saveUser_def assignUserUpdates_def assignOwnUpdates_def

lemmas committee_defs =
  createCommittee_def tryCreateCommittee_def updateCommittee_def tryUpdateCommittee_def
  persistAndRespond_def newCommittee_def membersGiven_def resolveMembers_def resolvedIds_def
  memberData_def notFoundMessage_def findUserByEmployeeId_def findCommitteeById_def
  findUserById_def saveCommittee_def populateCreatedBy_def notifyEvents_def memberEmails_def
  snapshot_def assignUpdates_def assignField_def unresolvedMembers_def firstMissing_def

section \<open>Member identifiers\<close>

lemma js_trim_empty_iff: "js_trim s = [] \<longleftrightarrow> list_all js_ws s"
proof -
  have "js_trim s = [] \<longleftrightarrow> (\<forall>c \<in> set (dropWhile js_ws s). js_ws c)"
    by (simp add: js_trim_def dropWhile_eq_Nil_conv)
  also have "\<dots> \<longleftrightarrow> dropWhile js_ws s = []"
  proof
    assume a: "\<forall>c \<in> set (dropWhile js_ws s). js_ws c"
    show "dropWhile js_ws s = []"
    proof (rule ccontr)
      assume n: "dropWhile js_ws s \<noteq> []"
      then have "\<not> js_ws (hd (dropWhile js_ws s))" by (rule hd_dropWhile)
      moreover have "hd (dropWhile js_ws s) \<in> set (dropWhile js_ws s)" using n by simp
      ultimately show False using a by blast
    qed
  next
    assume "dropWhile js_ws s = []"
    then show "\<forall>c \<in> set (dropWhile js_ws s). js_ws c"
      by (metis empty_iff list.set(1))
  qed
  also have "\<dots> \<longleftrightarrow> list_all js_ws s"
    by (simp add: dropWhile_eq_Nil_conv list_all_iff)
  finally show ?thesis .
qed

text \<open>
  An identifier passes the check exactly when it is a string with a character that is not
  white space.
\<close>

lemma validMemberId_iff: "validMemberId v \<longleftrightarrow> (\<exists>s. v = JStr s \<and> \<not> list_all js_ws s)"
  by (cases v) (simp_all add: js_trim_empty_iff)

lemma idStrings_valid: "list_all validMemberId ids \<Longrightarrow> map JStr (idStrings ids) = ids"
proof (induction ids)
  case Nil
  then show ?case by simp
next
  case (Cons v vs)
  then show ?case by (cases v) simp_all
qed

text \<open>
  Resolution of a JSON text, of a text that does not parse, and of a list with a
  \<open>null\<close> entry, whose property read throws.
\<close>

lemma resolvedIds_examples:
  "resolvedIds env0 (JStr ''[\"E100\"]'') = Inr [JStr ''E100'']
   \<and> resolvedIds env0 (JStr ''E100'') = Inl SyntaxError
   \<and> resolvedIds env0 (JArr [JStr ''E100'', JNull]) = Inl TypeError"
  by (simp add: resolvedIds_def memberData_def env0_def)

section \<open>The lookup loop\<close>

lemma lookupMembers_missing:
  assumes "\<forall>x. \<not> faults e (FindUserByEmployeeId x)"
    and "firstMissing us ids = Some missing"
  shows "snd (lookupMembers e us ids) = Return (AppError (notFoundMessage missing) 404)"
  using assms
proof (induction ids)
  case Nil
  then show ?case by (simp add: firstMissing_def)
next
  case (Cons i ids)
  show ?case
  proof (cases "findUserByEmployeeId us i")
    case None
    with Cons.prems show ?thesis by (simp add: firstMissing_def)
  next
    case (Some u)
    with Cons.prems have "firstMissing us ids = Some missing" by (simp add: firstMissing_def)
    with Cons have "snd (lookupMembers e us ids) = Return (AppError (notFoundMessage missing) 404)"
      by blast
    with Some Cons.prems show ?thesis
      by (cases "lookupMembers e us ids") (simp split: step.splits)
  qed
qed

lemma lookupMembers_trace:
  "ev \<in> set (fst (lookupMembers e us ids)) \<Longrightarrow> \<exists>x. ev = EvFindUser x"
proof (induction ids arbitrary: ev)
  case Nil
  then show ?case by simp
next
  case (Cons i ids)
  then show ?case
    by (cases "lookupMembers e us ids")
       (auto split: if_splits option.splits step.splits)
qed

lemma lookupMembers_trace_pair:
  "lookupMembers e us ids = (evs, r) \<Longrightarrow> ev \<in> set evs \<Longrightarrow> \<exists>x. ev = EvFindUser x"
  using lookupMembers_trace [of ev e us ids] by simp

lemma resolveMembers_trace:
  "resolveMembers e us m = (evs, r) \<Longrightarrow> ev \<in> set evs \<Longrightarrow> \<exists>x. ev = EvFindUser x"
  by (auto simp: resolveMembers_def split: if_splits sum.splits dest: lookupMembers_trace_pair)

lemma tryCreate_return:
  assumes "tryCreateCommittee e w req = (w', evs, Return err)"
  shows "w' = w \<and> (\<forall>ev \<in> set evs. \<exists>x. ev = EvFindUser x)"
proof -
  let ?m = "getProp (body req) ''members''"
  obtain evs0 r0 where
    r: "(if membersGiven e ?m then resolveMembers e (users w) ?m else ([], Done [])) = (evs0, r0)"
    by (cases "(if membersGiven e ?m then resolveMembers e (users w) ?m else ([], Done []))") auto
  have tr: "\<forall>ev \<in> set evs0. \<exists>x. ev = EvFindUser x"
    using r by (auto split: if_splits dest: resolveMembers_trace)
  from assms r have "w' = w \<and> evs = evs0"
    by (auto simp: tryCreateCommittee_def Let_def persistAndRespond_def
        split: step.splits option.splits if_splits prod.splits)
  with tr show ?thesis by simp
qed

section \<open>Claims about createCommittee and updateCommittee\<close>

text \<open>
  C1, as amended. When the member value of a createCommittee request is taken up, every
  identifier it resolves to is a non-empty string and the user lookups answer, then a list
  with an identifier that has no user makes the handler fail with status 404 and the message
  naming the first such identifier in list order; the store is left as it was and no
  committee is saved.
\<close>

theorem createCommittee_unknown_member:
  assumes "membersGiven e (getProp (body req) ''members'')"
    and "resolvedIds e (getProp (body req) ''members'') = Inr ids"
    and "list_all validMemberId ids"
    and "\<forall>x. \<not> faults e (FindUserByEmployeeId x)"
    and "firstMissing (users w) (idStrings ids) = Some missing"
  shows "r_outcome (createCommittee e w req) = Next (AppError (notFoundMessage missing) 404)
       \<and> r_world (createCommittee e w req) = w
       \<and> (\<forall>c. EvSaveCommittee c \<notin> set (r_trace (createCommittee e w req)))"
proof -
  have "snd (lookupMembers e (users w) (idStrings ids))
          = Return (AppError (notFoundMessage missing) 404)"
    using assms(4,5) by (rule lookupMembers_missing)
  then obtain evs where
    l: "lookupMembers e (users w) (idStrings ids)
          = (evs, Return (AppError (notFoundMessage missing) 404))"
    by (cases "lookupMembers e (users w) (idStrings ids)") simp
  have t: "tryCreateCommittee e w req = (w, evs, Return (AppError (notFoundMessage missing) 404))"
    using assms(1,2,3) l by (simp add: tryCreateCommittee_def resolveMembers_def)
  from tryCreate_return[OF t] have "\<forall>ev \<in> set evs. \<exists>x. ev = EvFindUser x" by simp
  then have "\<forall>c. EvSaveCommittee c \<notin> set evs" by auto
  with t show ?thesis by (simp add: createCommittee_def)
qed

text \<open>
  The theorem at a request naming Alice's \<open>E100\<close>, then \<open>E404\<close> and \<open>E405\<close>, which nobody
  has: the message names \<open>E404\<close>.
\<close>

theorem createCommittee_unknown_member_witness:
  "r_outcome (createCommittee env0 world1
       (withMembers (JArr [JStr ''E100'', JStr ''E404'', JStr ''E405''])))
     = Next (AppError ''User with employee ID E404 not found'' 404)
   \<and> r_world (createCommittee env0 world1
       (withMembers (JArr [JStr ''E100'', JStr ''E404'', JStr ''E405'']))) = world1"
proof -
  let ?req = "withMembers (JArr [JStr ''E100'', JStr ''E404'', JStr ''E405''])"
  let ?ids = "[JStr ''E100'', JStr ''E404'', JStr ''E405'']"
  have h1: "membersGiven env0 (getProp (body ?req) ''members'')"
    by (simp add: sample_defs js_defs membersGiven_def)
  have h2: "resolvedIds env0 (getProp (body ?req) ''members'') = Inr ?ids"
    by (simp add: sample_defs js_defs resolvedIds_def memberData_def)
  have h3: "list_all validMemberId ?ids"
    by (simp add: js_defs)
  have h4: "\<forall>x. \<not> faults env0 (FindUserByEmployeeId x)"
    by (simp add: env0_def)
  have h5: "firstMissing (users world1) (idStrings ?ids) = Some ''E404''"
    by (simp add: sample_defs firstMissing_def findUserByEmployeeId_def)
  from createCommittee_unknown_member [OF h1 h2 h3 h4 h5]
  show ?thesis by (simp add: notFoundMessage_def)
qed

text \<open>
  C1 as stated fails: the list below contains \<open>GHOST\<close>, which no user has, and the
  handler answers 400, because the blank second identifier fails the check that runs before
  any lookup.
\<close>

theorem createCommittee_unknown_member_counterexample:
  "findUserByEmployeeId (users world1) ''GHOST'' = None
   \<and> r_outcome (createCommittee env0 world1 (withMembers (JArr [JStr ''GHOST'', JStr '' ''])))
       = Next (AppError ''All member IDs must be non-empty strings'' 400)"
  by (simp add: sample_defs js_defs committee_defs)

text \<open>
  C2, as amended. When the member value of a request is taken up and resolves to a list
  with an identifier that is not a string or is empty or all white space, createCommittee
  fails with status 400 having performed no effect at all, and updateCommittee, once it has
  fetched the committee it is to update, fails with status 400 having performed nothing but
  that fetch: no user lookup precedes the failure, and the store is unchanged.
\<close>

theorem member_validation_before_lookup:
  assumes "membersGiven e (getProp (body req) ''members'')"
    and "resolvedIds e (getProp (body req) ''members'') = Inr ids"
    and "\<not> list_all validMemberId ids"
  shows "r_outcome (createCommittee e w req)
           = Next (AppError ''All member IDs must be non-empty strings'' 400)
       \<and> r_trace (createCommittee e w req) = []
       \<and> r_world (createCommittee e w req) = w
       \<and> (\<not> faults e (FindCommitteeById (params req ''id''))
            \<and> findCommitteeById (committees w) (params req ''id'') \<noteq> None
          \<longrightarrow> r_outcome (updateCommittee e w req)
                = Next (AppError ''All member IDs must be non-empty strings'' 400)
            \<and> r_trace (updateCommittee e w req) = [EvFindCommittee (params req ''id'')]
            \<and> r_world (updateCommittee e w req) = w)"
proof -
  have r: "resolveMembers e (users w) (getProp (body req) ''members'')
             = ([], Return (AppError ''All member IDs must be non-empty strings'' 400))"
    using assms(2,3) by (simp add: resolveMembers_def)
  have c: "tryCreateCommittee e w req
             = (w, [], Return (AppError ''All member IDs must be non-empty strings'' 400))"
    using assms(1) r by (simp add: tryCreateCommittee_def)
  have u: "tryUpdateCommittee e w req
             = (w, [EvFindCommittee (params req ''id'')],
                Return (AppError ''All member IDs must be non-empty strings'' 400))"
    if "\<not> faults e (FindCommitteeById (params req ''id''))"
      and "findCommitteeById (committees w) (params req ''id'') \<noteq> None"
    using that assms(1) r by (auto simp: tryUpdateCommittee_def)
  show ?thesis
    using c u by (simp add: createCommittee_def updateCommittee_def)
qed

text \<open>
  The theorem at a member list whose second entry carries the number 7 as its employee
  identifier, sent to both handlers; committee \<open>c7\<close> exists.
\<close>

theorem member_validation_before_lookup_witness:
  "r_outcome (createCommittee env0 world1
       (withMembers (JArr [JStr ''E100'', JObj [(''employeeId'', JNum 7)]])))
     = Next (AppError ''All member IDs must be non-empty strings'' 400)
   \<and> r_trace (createCommittee env0 world1
       (withMembers (JArr [JStr ''E100'', JObj [(''employeeId'', JNum 7)]]))) = []
   \<and> r_outcome (updateCommittee env0 world1
       (withMembers (JArr [JStr ''E100'', JObj [(''employeeId'', JNum 7)]])))
     = Next (AppError ''All member IDs must be non-empty strings'' 400)
   \<and> r_trace (updateCommittee env0 world1
       (withMembers (JArr [JStr ''E100'', JObj [(''employeeId'', JNum 7)]])))
     = [EvFindCommittee ''c7'']"
proof -
  let ?req = "withMembers (JArr [JStr ''E100'', JObj [(''employeeId'', JNum 7)]])"
  have h1: "membersGiven env0 (getProp (body ?req) ''members'')"
    by (simp add: sample_defs js_defs membersGiven_def)
  have h2: "resolvedIds env0 (getProp (body ?req) ''members'') = Inr [JStr ''E100'', JNum 7]"
    by (simp add: sample_defs js_defs resolvedIds_def memberData_def)
  have h3: "\<not> list_all validMemberId [JStr ''E100'', JNum 7]"
    by simp
  have h4: "\<not> faults env0 (FindCommitteeById (params ?req ''id''))
            \<and> findCommitteeById (committees world1) (params ?req ''id'') \<noteq> None"
    by (simp add: sample_defs findCommitteeById_def)
  have p: "params ?req ''id'' = ''c7''"
    by (simp add: sample_defs)
  from member_validation_before_lookup [OF h1 h2 h3, of world1] h4 p
  show ?thesis by simp
qed

text \<open>
  C2 as stated fails for updateCommittee: the member list below resolves to a blank
  identifier, but no committee \<open>c9\<close> exists, and the handler answers 404.
\<close>

theorem member_validation_before_lookup_counterexample:
  "membersGiven env0 (JArr [JStr '' ''])
   \<and> resolvedIds env0 (JArr [JStr '' '']) = Inr [JStr '' '']
   \<and> \<not> list_all validMemberId [JStr '' '']
   \<and> r_outcome (updateCommittee env0 world1
        ((withMembers (JArr [JStr '' '']))\<lparr>params := (\<lambda>k. ''c9'')\<rparr>))
       = Next (AppError ''No committee found with that ID'' 404)"
  by (simp add: sample_defs js_defs committee_defs)

text \<open>
  The \<open>catch\<close> block of createCommittee does unlink the uploaded file: whenever the
  \<open>try\<close> block throws, the file's path is removed from storage as the last effect before
  the error is passed on.
\<close>

lemma createCommittee_catch_unlinks:
  assumes "tryCreateCommittee e w req = (w', evs, Throw err)" and "req_file req = Some f"
  shows "r_outcome (createCommittee e w req) = Next err
       \<and> r_trace (createCommittee e w req) = evs @ [EvUnlink (path f)]
       \<and> path f \<notin> set (files (r_world (createCommittee e w req)))"
  using assms by (simp add: createCommittee_def)

text \<open>
  C5, the code at two failing inputs. A request with the uploaded letter fails with 404 on
  the unknown identifier \<open>E404\<close>, and with 400 on a blank identifier; in both runs no
  unlink is performed and the letter is still in storage when the error is passed on.
\<close>

theorem createCommittee_early_return_keeps_file:
  "r_outcome (createCommittee env0 world1
       ((withMembers (JArr [JStr ''E404'']))\<lparr>req_file := Some letter\<rparr>))
     = Next (AppError ''User with employee ID E404 not found'' 404)
   \<and> r_trace (createCommittee env0 world1
       ((withMembers (JArr [JStr ''E404'']))\<lparr>req_file := Some letter\<rparr>))
     = [EvFindUser ''E404'']
   \<and> files (r_world (createCommittee env0 world1
       ((withMembers (JArr [JStr ''E404'']))\<lparr>req_file := Some letter\<rparr>)))
     = [''uploads/letter.pdf'']
   \<and> r_outcome (createCommittee env0 world1
       ((withMembers (JArr [JStr '' '']))\<lparr>req_file := Some letter\<rparr>))
     = Next (AppError ''All member IDs must be non-empty strings'' 400)
   \<and> r_trace (createCommittee env0 world1
       ((withMembers (JArr [JStr '' '']))\<lparr>req_file := Some letter\<rparr>)) = []
   \<and> files (r_world (createCommittee env0 world1
       ((withMembers (JArr [JStr '' '']))\<lparr>req_file := Some letter\<rparr>)))
     = [''uploads/letter.pdf'']"
  by (simp add: sample_defs js_defs committee_defs)

theorem createCommittee_early_return_keeps_file_witness:
  "EvUnlink (path letter) \<notin> set (r_trace (createCommittee env0 world1
       ((withMembers (JArr [JStr ''E404'']))\<lparr>req_file := Some letter\<rparr>)))
   \<and> path letter \<in> set (files (r_world (createCommittee env0 world1
       ((withMembers (JArr [JStr ''E404'']))\<lparr>req_file := Some letter\<rparr>))))"
  using createCommittee_early_return_keeps_file by (simp add: letter_def)

section \<open>Saving a committee\<close>

lemma findCommitteeById_id: "findCommitteeById cs i = Some c \<Longrightarrow> c_id c = i"
  by (auto simp: findCommitteeById_def find_Some_iff)

lemma find_map_other:
  "i \<noteq> c_id c' \<Longrightarrow>
   find (\<lambda>c. c_id c = i) (map (\<lambda>d. if c_id d = c_id c' then c' else d) cs)
     = find (\<lambda>c. c_id c = i) cs"
  by (induction cs) auto

lemma find_map_same:
  "find (\<lambda>c. c_id c = c_id c') cs = Some c \<Longrightarrow>
   find (\<lambda>c. c_id c = c_id c') (map (\<lambda>d. if c_id d = c_id c' then c' else d) cs) = Some c'"
  by (induction cs) (auto split: if_splits)

lemma find_snoc_other: "\<not> P y \<Longrightarrow> find P (xs @ [y]) = find P xs"
  by (induction xs) auto

lemma findCommitteeById_save_other:
  "i \<noteq> c_id c' \<Longrightarrow> findCommitteeById (saveCommittee c' cs) i = findCommitteeById cs i"
  by (simp add: saveCommittee_def findCommitteeById_def find_map_other find_snoc_other)

lemma findCommitteeById_save_same:
  "findCommitteeById cs (c_id c') = Some c \<Longrightarrow>
   findCommitteeById (saveCommittee c' cs) (c_id c') = Some c'"
  by (simp add: saveCommittee_def findCommitteeById_def find_map_same)

lemma persistAndRespond_world:
  "persistAndRespond e w req c st = (w', evs, r) \<Longrightarrow>
   w' = w \<or> w' = w\<lparr>committees := saveCommittee c (committees w)\<rparr>"
  by (auto simp: persistAndRespond_def Let_def split: if_splits)

lemma resolveMembers_undefined: "\<not> membersGiven e JUndefined"
  by (simp add: membersGiven_def)

lemma tryUpdateCommittee_world:
  assumes "tryUpdateCommittee e w req = (w', evs, r)"
  shows "w' = w \<or>
    (\<exists>c mu. findCommitteeById (committees w) (params req ''id'') = Some c
       \<and> (getProp (body req) ''members'' = JUndefined \<longrightarrow> mu = None)
       \<and> w' = w\<lparr>committees := saveCommittee (assignUpdates req mu c) (committees w)\<rparr>)"
proof (cases "faults e (FindCommitteeById (params req ''id''))")
  case True
  with assms show ?thesis by (simp add: tryUpdateCommittee_def)
next
  case nf: False
  show ?thesis
  proof (cases "findCommitteeById (committees w) (params req ''id'')")
    case None
    with nf assms show ?thesis by (simp add: tryUpdateCommittee_def)
  next
    case (Some c)
    let ?m = "getProp (body req) ''members''"
    define res where "res = (if membersGiven e ?m
                           then (case resolveMembers e (users w) ?m of
                                   (evs, Done ms) \<Rightarrow> (evs, Done (Some (Snapshots ms)))
                                 | (evs, Return err) \<Rightarrow> (evs, Return err)
                                 | (evs, Throw err) \<Rightarrow> (evs, Throw err))
                           else ([], Done (unresolvedMembers ?m)))"
    obtain evs0 r0 where res: "res = (evs0, r0)" by (cases res) auto
    have mu: "r0 = Done mu \<Longrightarrow> ?m = JUndefined \<Longrightarrow> mu = None" for mu
      using res unfolding res_def
      by (auto simp: membersGiven_def unresolvedMembers_def split: if_splits)
    show ?thesis
    proof (cases r0)
      case (Done mu)
      obtain w2 evs2 r2 where p: "persistAndRespond e w req (assignUpdates req mu c) 200 = (w2, evs2, r2)"
        by (cases "persistAndRespond e w req (assignUpdates req mu c) 200") auto
      from assms nf Some res Done p have "w' = w2"
        unfolding tryUpdateCommittee_def Let_def res_def [symmetric]
        by (auto split: step.splits option.splits)
      with persistAndRespond_world [OF p] mu [OF Done] Some show ?thesis by auto
    next
      case (Return err)
      with assms nf Some res show ?thesis
        unfolding tryUpdateCommittee_def Let_def res_def [symmetric] by simp
    next
      case (Throw err)
      with assms nf Some res show ?thesis
        unfolding tryUpdateCommittee_def Let_def res_def [symmetric] by simp
    qed
  qed
qed

lemma updateCommittee_world:
  "r_world (updateCommittee e w req) = w \<or>
    (\<exists>c mu. findCommitteeById (committees w) (params req ''id'') = Some c
       \<and> (getProp (body req) ''members'' = JUndefined \<longrightarrow> mu = None)
       \<and> r_world (updateCommittee e w req)
           = w\<lparr>committees := saveCommittee (assignUpdates req mu c) (committees w)\<rparr>)"
proof -
  obtain w' evs r where t: "tryUpdateCommittee e w req = (w', evs, r)"
    by (cases "tryUpdateCommittee e w req") auto
  then have "r_world (updateCommittee e w req) = w'"
    by (simp add: updateCommittee_def split: step.splits)
  with tryUpdateCommittee_world [OF t] show ?thesis by simp
qed

lemma assignUpdates_id: "c_id (assignUpdates req mu c) = c_id c"
  by (simp add: assignUpdates_def)

section \<open>Claims about stored committees\<close>

text \<open>
  C6. The member snapshots of a stored committee are copies. The handlers that change or
  remove user records (updateUser, updateMe, deleteUser) leave the committee collection as
  it is, and updateCommittee leaves every committee other than the one its route names as
  it is, so the snapshot entries of such a committee keep the name, role, email, employee
  identifier, department and designation they were given at resolution.
\<close>

theorem snapshots_are_copies:
  "committees (r_world (updateUser e w req)) = committees w
   \<and> committees (r_world (updateMe e w req)) = committees w
   \<and> committees (r_world (deleteUser e w req)) = committees w
   \<and> (i \<noteq> params req ''id''
      \<longrightarrow> findCommitteeById (committees (r_world (updateCommittee e w req))) i
            = findCommitteeById (committees w) i)"
proof -
  have a: "committees (r_world (updateUser e w req)) = committees w"
    by (simp add: updateUser_def reject_def Let_def split: option.splits)
  have b: "committees (r_world (updateMe e w req)) = committees w"
    by (simp add: updateMe_def reject_def Let_def split: option.splits)
  have d: "committees (r_world (deleteUser e w req)) = committees w"
    by (simp add: deleteUser_def reject_def Let_def split: option.splits)
  have c: "findCommitteeById (committees (r_world (updateCommittee e w req))) i
            = findCommitteeById (committees w) i" if "i \<noteq> params req ''id''"
    using updateCommittee_world [of e w req]
  proof
    assume "r_world (updateCommittee e w req) = w"
    then show ?thesis by simp
  next
    assume "\<exists>c mu. findCommitteeById (committees w) (params req ''id'') = Some c
       \<and> (getProp (body req) ''members'' = JUndefined \<longrightarrow> mu = None)
       \<and> r_world (updateCommittee e w req)
           = w\<lparr>committees := saveCommittee (assignUpdates req mu c) (committees w)\<rparr>"
    then obtain c mu where f: "findCommitteeById (committees w) (params req ''id'') = Some c"
      and w: "r_world (updateCommittee e w req)
           = w\<lparr>committees := saveCommittee (assignUpdates req mu c) (committees w)\<rparr>"
      by blast
    from f have "c_id (assignUpdates req mu c) = params req ''id''"
      by (simp add: assignUpdates_id findCommitteeById_id)
    with that w show ?thesis by (simp add: findCommitteeById_save_other)
  qed
  from a b c d show ?thesis by simp
qed

text \<open>
  The theorem at work: Alice is renamed, then committee \<open>c8\<close> is updated with her
  identifier and takes the new name, while committee \<open>c7\<close> still holds the old one.
\<close>

lemma renamed_eval:
  "renamed = world1\<lparr>users := [alice\<lparr>u_name := JStr ''Alicia''\<rparr>, bob, carol]\<rparr>"
  by (simp add: renamed_def rename_def updateUser_def Let_def request0_def env0_def world1_def
      findUserById_def alice_def bob_def carol_def saveUser_def assignUserUpdates_def
      assignField_def getProp_def)

theorem snapshots_are_copies_witness:
  "map u_name (users renamed) = [JStr ''Alicia'', JStr ''Bob'', JStr ''Carol'']
   \<and> findCommitteeById (committees renamed) ''c7'' = Some board
   \<and> findCommitteeById (committees (r_world (updateCommittee env0 renamed refresh))) ''c7''
       = Some board
   \<and> c_members board = Snapshots [snapshot alice]
   \<and> m_name (snapshot alice) = JStr ''Alice''
   \<and> map_option c_members
        (findCommitteeById (committees (r_world (updateCommittee env0 renamed refresh))) ''c8'')
       = Some (Snapshots [snapshot (alice\<lparr>u_name := JStr ''Alicia''\<rparr>)])"
proof -
  have c: "findCommitteeById (committees world1) ''c7'' = Some board"
    by (simp add: world1_def findCommitteeById_def board_def)
  have p: "''c7'' \<noteq> params refresh ''id''"
    by (simp add: refresh_def)
  from snapshots_are_copies [of env0 world1 rename "''c7''"]
  have a: "findCommitteeById (committees renamed) ''c7'' = Some board"
    using c by (simp add: renamed_def)
  from snapshots_are_copies [of env0 renamed refresh "''c7''"] p a
  have b: "findCommitteeById (committees (r_world (updateCommittee env0 renamed refresh))) ''c7''
       = Some board"
    by simp
  have n: "map u_name (users renamed) = [JStr ''Alicia'', JStr ''Bob'', JStr ''Carol'']"
    by (simp add: renamed_eval alice_def bob_def carol_def)
  have m: "c_members board = Snapshots [snapshot alice]" "m_name (snapshot alice) = JStr ''Alice''"
    by (simp_all add: board_def snapshot_def alice_def)
  have d: "map_option c_members
        (findCommitteeById (committees (r_world (updateCommittee env0 renamed refresh))) ''c8'')
       = Some (Snapshots [snapshot (alice\<lparr>u_name := JStr ''Alicia''\<rparr>)])"
    by (simp add: renamed_eval refresh_def sample_defs js_defs committee_defs Let_def)
  from a b n m d show ?thesis by simp
qed

text \<open>
  C7. After any updateCommittee request a stored committee has the attached-file
  descriptor, the creator and the identifier it had before, whatever the body says about
  \<open>formationLetter\<close>; and every field of the whitelist that the body leaves undefined
  keeps its value.
\<close>

theorem updateCommittee_frame:
  assumes "findCommitteeById (committees w) i = Some c"
  shows "\<exists>c'. findCommitteeById (committees (r_world (updateCommittee e w req))) i = Some c'
     \<and> c_formationLetter c' = c_formationLetter c
     \<and> c_createdBy c' = c_createdBy c
     \<and> c_id c' = c_id c
     \<and> (getProp (body req) ''name'' = JUndefined \<longrightarrow> c_name c' = c_name c)
     \<and> (getProp (body req) ''purpose'' = JUndefined \<longrightarrow> c_purpose c' = c_purpose c)
     \<and> (getProp (body req) ''formationDate'' = JUndefined
          \<longrightarrow> c_formationDate c' = c_formationDate c)
     \<and> (getProp (body req) ''specificationSubmissionDate'' = JUndefined
          \<longrightarrow> c_specificationSubmissionDate c' = c_specificationSubmissionDate c)
     \<and> (getProp (body req) ''reviewDate'' = JUndefined \<longrightarrow> c_reviewDate c' = c_reviewDate c)
     \<and> (getProp (body req) ''schedule'' = JUndefined \<longrightarrow> c_schedule c' = c_schedule c)
     \<and> (getProp (body req) ''members'' = JUndefined \<longrightarrow> c_members c' = c_members c)
     \<and> (getProp (body req) ''shouldNotify'' = JUndefined
          \<longrightarrow> c_shouldNotify c' = c_shouldNotify c)
     \<and> (getProp (body req) ''approvalStatus'' = JUndefined
          \<longrightarrow> c_approvalStatus c' = c_approvalStatus c)"
  using updateCommittee_world [of e w req]
proof
  assume "r_world (updateCommittee e w req) = w"
  with assms show ?thesis by simp
next
  assume "\<exists>c mu. findCommitteeById (committees w) (params req ''id'') = Some c
       \<and> (getProp (body req) ''members'' = JUndefined \<longrightarrow> mu = None)
       \<and> r_world (updateCommittee e w req)
           = w\<lparr>committees := saveCommittee (assignUpdates req mu c) (committees w)\<rparr>"
  then obtain d mu where f: "findCommitteeById (committees w) (params req ''id'') = Some d"
      and m: "getProp (body req) ''members'' = JUndefined \<longrightarrow> mu = None"
      and w: "r_world (updateCommittee e w req)
           = w\<lparr>committees := saveCommittee (assignUpdates req mu d) (committees w)\<rparr>"
    by blast
  have di: "c_id (assignUpdates req mu d) = params req ''id''"
    using f by (simp add: assignUpdates_id findCommitteeById_id)
  show ?thesis
  proof (cases "i = params req ''id''")
    case True
    with f assms have cd: "d = c" by simp
    from f di have "findCommitteeById (saveCommittee (assignUpdates req mu d) (committees w))
        (params req ''id'') = Some (assignUpdates req mu d)"
      using findCommitteeById_save_same [of "committees w" "assignUpdates req mu d" d] by simp
    with True w cd m show ?thesis
      by (simp add: assignUpdates_def assignField_def)
  next
    case False
    with di w assms show ?thesis by (simp add: findCommitteeById_save_other)
  qed
qed

text \<open>
  The theorem at a body that renames committee \<open>c7\<close> and tries to set
  \<open>formationLetter\<close>: the letter and the purpose stay, the name changes.
\<close>

theorem updateCommittee_frame_witness:
  "map_option c_formationLetter (findCommitteeById (committees (r_world
      (updateCommittee env0 world1
         (request0\<lparr>body := [(''name'', JStr ''Council''), (''formationLetter'', JStr ''x.pdf'')]\<rparr>))))
      ''c7'') = Some (Some letter)
   \<and> map_option c_purpose (findCommitteeById (committees (r_world
      (updateCommittee env0 world1
         (request0\<lparr>body := [(''name'', JStr ''Council''), (''formationLetter'', JStr ''x.pdf'')]\<rparr>))))
      ''c7'') = Some (JStr ''Review'')
   \<and> map_option c_name (findCommitteeById (committees (r_world
      (updateCommittee env0 world1
         (request0\<lparr>body := [(''name'', JStr ''Council''), (''formationLetter'', JStr ''x.pdf'')]\<rparr>))))
      ''c7'') = Some (JStr ''Council'')"
proof -
  let ?req = "request0\<lparr>body := [(''name'', JStr ''Council''), (''formationLetter'', JStr ''x.pdf'')]\<rparr>"
  let ?after = "findCommitteeById (committees (r_world (updateCommittee env0 world1 ?req))) ''c7''"
  have c: "findCommitteeById (committees world1) ''c7'' = Some board"
    by (simp add: world1_def findCommitteeById_def board_def)
  have u: "getProp (body ?req) ''purpose'' = JUndefined"
    by (simp add: request0_def getProp_def)
  from updateCommittee_frame [OF c, of env0 ?req] u
  obtain c' where "?after = Some c'" "c_formationLetter c' = c_formationLetter board"
    "c_purpose c' = c_purpose board"
    by blast
  then have a: "map_option c_formationLetter ?after = Some (Some letter)"
    "map_option c_purpose ?after = Some (JStr ''Review'')"
    by (simp_all add: board_def)
  have b: "map_option c_name ?after = Some (JStr ''Council'')"
    by (simp add: sample_defs js_defs committee_defs Let_def)
  from a b show ?thesis by simp
qed

section \<open>Claims about the auth controller\<close>

lemma findUserById_id: "findUserById us i = Some u \<Longrightarrow> u_id u = i"
  by (auto simp: findUserById_def find_Some_iff)

lemma findUserById_filter: "findUserById (filter (\<lambda>v. u_id v \<noteq> i) us) i = None"
  by (simp add: findUserById_def find_None_iff)

text \<open>
  C3. The user model's \<open>changedPasswordAfter\<close> is modelled from the spec. When a
  request carries a token whose issue time lies before the password-change time of the user
  it names, the guard ends with an error of status 401 and attaches no user, whether or not
  verification of the token succeeds; when the token verifies and the user lookup answers,
  the error is the password-change one.
\<close>

theorem protect_rejects_stale_token:
  assumes "getToken req = Some tok"
    and "parseToken e tok = Some t"
    and "findUserById (users w) (jwt_id t) = Some u"
    and "u_passwordChangedAt u = Some changed"
    and "jwt_iat t < changed"
  shows "(\<exists>msg. r_outcome (protect e w req) = Next (AppError msg 401))
       \<and> r_world (protect e w req) = w
       \<and> (tok \<noteq> [] \<and> verifyToken e tok = Inr t \<and> \<not> faults e (FindUserById (jwt_id t))
          \<longrightarrow> r_outcome (protect e w req)
                = Next (AppError ''Password changed - please log in again'' 401))"
proof -
  have v: "verifyToken e tok = Inr t' \<Longrightarrow> t' = t" for t'
    using assms(2) by (auto simp: verifyToken_def jwt_verify_def split: if_splits option.splits)
  have c: "changedPasswordAfter u (jwt_iat t)"
    using assms(4,5) by (simp add: changedPasswordAfter_def)
  show ?thesis
  proof (cases "verifyToken e tok")
    case (Inl err)
    with assms(1) show ?thesis by (simp add: protect_def reject_def)
  next
    case (Inr t')
    with v have "t' = t" by simp
    with Inr assms(1,3) c show ?thesis by (simp add: protect_def reject_def)
  qed
qed

text \<open>
  The theorem at Bob's token, issued at 5000 s, valid and without expiry, after Bob
  changed his password at 6000 s.
\<close>

theorem protect_rejects_stale_token_witness:
  "verifyToken env0 ''tok''
     = Inr \<lparr>jwt_id = ''u2'', jwt_iat = 5000, jwt_exp = None, jwt_key = ''s3cret''\<rparr>
   \<and> u_passwordChangedAt bob = Some 6000
   \<and> r_outcome (protect env0 world1 (request0\<lparr>authorization := Some ''Bearer tok''\<rparr>))
       = Next (AppError ''Password changed - please log in again'' 401)"
proof -
  let ?t = "\<lparr>jwt_id = ''u2'', jwt_iat = 5000, jwt_exp = None, jwt_key = ''s3cret''\<rparr>"
  have h1: "getToken (request0\<lparr>authorization := Some ''Bearer tok''\<rparr>) = Some ''tok''"
    by (simp add: request0_def getToken_def startsWith_def)
  have h2: "parseToken env0 ''tok'' = Some ?t"
    by (simp add: env0_def)
  have h3: "findUserById (users world1) (jwt_id ?t) = Some bob"
    by (simp add: world1_def findUserById_def alice_def bob_def)
  have h4: "u_passwordChangedAt bob = Some 6000"
    by (simp add: bob_def)
  have h5: "jwt_iat ?t < 6000"
    by simp
  have v: "verifyToken env0 ''tok'' = Inr ?t"
    by (simp add: verifyToken_def jwt_verify_def env0_def)
  have f: "\<not> faults env0 (FindUserById (jwt_id ?t))"
    by (simp add: env0_def)
  from protect_rejects_stale_token [OF h1 h2 h3 h4 h5] v f h4
  show ?thesis by simp
qed

text \<open>
  C4, as amended. A login request without email or without password fails with status
  400. With both present and the user lookup answering, login fails with status 401 when no
  user has the email, when the password does not match, and when the account is inactive.
  In none of these cases is a token issued.
\<close>

theorem login_failures:
  "(\<not> truthy (getProp (body req) ''email'') \<or> \<not> truthy (getProp (body req) ''password'')
      \<longrightarrow> r_outcome (login e w req) = Next (AppError ''Please provide email and password!'' 400)
        \<and> \<not> tokenIssued (login e w req))
   \<and> (truthy (getProp (body req) ''email'') \<and> truthy (getProp (body req) ''password'')
        \<and> \<not> faults e (FindUserByEmail (getProp (body req) ''email''))
      \<longrightarrow> (findUserByEmail (users w) (getProp (body req) ''email'') = None
            \<longrightarrow> r_outcome (login e w req) = Next (AppError ''Incorrect email or password'' 401)
              \<and> \<not> tokenIssued (login e w req))
        \<and> (\<forall>u. findUserByEmail (users w) (getProp (body req) ''email'') = Some u
                \<and> correctPassword e (getProp (body req) ''password'') (u_password u) = Some False
            \<longrightarrow> r_outcome (login e w req) = Next (AppError ''Incorrect email or password'' 401)
              \<and> \<not> tokenIssued (login e w req))
        \<and> (\<forall>u. findUserByEmail (users w) (getProp (body req) ''email'') = Some u
                \<and> correctPassword e (getProp (body req) ''password'') (u_password u) = Some True
                \<and> \<not> truthy (u_isActive u)
            \<longrightarrow> r_outcome (login e w req) = Next (AppError ''Your account has been deactivated'' 401)
              \<and> \<not> tokenIssued (login e w req)))"
  by (auto simp: login_def tokenIssued_def Let_def)

text \<open>
  The theorem at four requests: no password; an unknown email; Alice with a wrong
  password; inactive Bob with his own password.
\<close>

theorem login_failures_witness:
  "r_outcome (login env0 world1 (credentials [(''email'', JStr ''alice@example.org'')]))
     = Next (AppError ''Please provide email and password!'' 400)
   \<and> r_outcome (login env0 world1
        (credentials [(''email'', JStr ''dave@example.org''), (''password'', JStr ''pw-dave'')]))
     = Next (AppError ''Incorrect email or password'' 401)
   \<and> r_outcome (login env0 world1
        (credentials [(''email'', JStr ''alice@example.org''), (''password'', JStr ''guess'')]))
     = Next (AppError ''Incorrect email or password'' 401)
   \<and> \<not> tokenIssued (login env0 world1
        (credentials [(''email'', JStr ''alice@example.org''), (''password'', JStr ''guess'')]))
   \<and> r_outcome (login env0 world1
        (credentials [(''email'', JStr ''bob@example.org''), (''password'', JStr ''pw-bob'')]))
     = Next (AppError ''Your account has been deactivated'' 401)"
proof -
  let ?a = "credentials [(''email'', JStr ''alice@example.org'')]"
  let ?b = "credentials [(''email'', JStr ''dave@example.org''), (''password'', JStr ''pw-dave'')]"
  let ?c = "credentials [(''email'', JStr ''alice@example.org''), (''password'', JStr ''guess'')]"
  let ?d = "credentials [(''email'', JStr ''bob@example.org''), (''password'', JStr ''pw-bob'')]"
  have nf: "\<not> faults env0 x" for x
    by (simp add: env0_def)
  have a: "\<not> truthy (getProp (body ?a) ''password'')"
    by (simp add: credentials_def request0_def getProp_def)
  have b: "truthy (getProp (body ?b) ''email'')" "truthy (getProp (body ?b) ''password'')"
    "findUserByEmail (users world1) (getProp (body ?b) ''email'') = None"
    by (simp_all add: credentials_def request0_def getProp_def findUserByEmail_def world1_def
        alice_def bob_def carol_def)
  have c: "truthy (getProp (body ?c) ''email'')" "truthy (getProp (body ?c) ''password'')"
    "findUserByEmail (users world1) (getProp (body ?c) ''email'') = Some alice"
    "correctPassword env0 (getProp (body ?c) ''password'') (u_password alice) = Some False"
    by (simp_all add: credentials_def request0_def getProp_def findUserByEmail_def world1_def
        alice_def env0_def)
  have d: "truthy (getProp (body ?d) ''email'')" "truthy (getProp (body ?d) ''password'')"
    "findUserByEmail (users world1) (getProp (body ?d) ''email'') = Some bob"
    "correctPassword env0 (getProp (body ?d) ''password'') (u_password bob) = Some True"
    "\<not> truthy (u_isActive bob)"
    by (simp_all add: credentials_def request0_def getProp_def findUserByEmail_def world1_def
        alice_def bob_def env0_def)
  from login_failures [of ?a env0 world1] a
  have ra: "r_outcome (login env0 world1 ?a) = Next (AppError ''Please provide email and password!'' 400)"
    by blast
  from login_failures [of ?b env0 world1] b nf
  have rb: "r_outcome (login env0 world1 ?b) = Next (AppError ''Incorrect email or password'' 401)"
    by blast
  from login_failures [of ?c env0 world1] c nf
  have rc: "r_outcome (login env0 world1 ?c) = Next (AppError ''Incorrect email or password'' 401)
     \<and> \<not> tokenIssued (login env0 world1 ?c)"
    by blast
  from login_failures [of ?d env0 world1] d nf
  have rd: "r_outcome (login env0 world1 ?d) = Next (AppError ''Your account has been deactivated'' 401)"
    by blast
  from ra rb rc rd show ?thesis by blast
qed

text \<open>
  C4 as stated fails: a login without a password is answered with status 400, not 401.
\<close>

theorem login_failures_counterexample:
  "\<not> truthy (getProp (body (credentials [(''email'', JStr ''alice@example.org'')])) ''password'')
   \<and> r_outcome (login env0 world1 (credentials [(''email'', JStr ''alice@example.org'')]))
       = Next (AppError ''Please provide email and password!'' 400)"
  by (simp add: credentials_def sample_defs auth_defs getProp_def Let_def)

text \<open>
  C8. For a deleteUser request of an authenticated requester whose target user exists,
  with the store answering: when the target is the requester the handler fails with status
  403 and the store is unchanged; when the target is another user the response status is
  204 and the store no longer holds a user under the target identifier.
\<close>

theorem deleteUser_self_and_other:
  assumes "req_user req = Some requester"
    and "findUserById (users w) (params req ''userId'') = Some target"
    and "\<not> faults e (FindUserById (params req ''userId''))"
    and "\<not> faults e (DeleteUserById (params req ''userId''))"
  shows "(params req ''userId'' = u_id requester
          \<longrightarrow> r_outcome (deleteUser e w req) = Next (AppError ''You cannot delete your own account'' 403)
            \<and> r_world (deleteUser e w req) = w)
       \<and> (params req ''userId'' \<noteq> u_id requester
          \<longrightarrow> r_outcome (deleteUser e w req) = Respond 204 (BodyMessage ''User deleted successfully'')
            \<and> findUserById (users (r_world (deleteUser e w req))) (params req ''userId'') = None
            \<and> users (r_world (deleteUser e w req))
                = filter (\<lambda>v. u_id v \<noteq> params req ''userId'') (users w))"
proof -
  let ?i = "params req ''userId''"
  have i: "u_id target = ?i"
    using assms(2) by (rule findUserById_id)
  have d: "deleteUser e w req =
     (if u_id target = u_id requester
      then reject w ''You cannot delete your own account'' 403
      else \<lparr>r_world = w\<lparr>users := filter (\<lambda>v. u_id v \<noteq> ?i) (users w)\<rparr>, r_trace = [],
            r_outcome = Respond 204 (BodyMessage ''User deleted successfully'')\<rparr>)"
    unfolding deleteUser_def Let_def using assms by simp
  show ?thesis
  proof (cases "?i = u_id requester")
    case True
    with i d show ?thesis by (simp add: reject_def)
  next
    case False
    with i d show ?thesis by (simp add: findUserById_filter)
  qed
qed

text \<open>
  The theorem at Alice deleting herself, and at Carol deleting Alice.
\<close>

theorem deleteUser_self_and_other_witness:
  "r_outcome (deleteUser env0 world1 (request0\<lparr>req_user := Some alice\<rparr>))
     = Next (AppError ''You cannot delete your own account'' 403)
   \<and> users (r_world (deleteUser env0 world1 (request0\<lparr>req_user := Some alice\<rparr>)))
     = [alice, bob, carol]
   \<and> r_outcome (deleteUser env0 world1 request0)
     = Respond 204 (BodyMessage ''User deleted successfully'')
   \<and> users (r_world (deleteUser env0 world1 request0)) = [bob, carol]"
proof -
  let ?self = "request0\<lparr>req_user := Some alice\<rparr>"
  have p: "params ?self ''userId'' = ''u1''" "params request0 ''userId'' = ''u1''"
    by (simp_all add: request0_def)
  have u: "req_user ?self = Some alice" "req_user request0 = Some carol"
    by (simp_all add: request0_def)
  have f: "findUserById (users world1) ''u1'' = Some alice"
    by (simp add: world1_def findUserById_def alice_def)
  have nf: "\<not> faults env0 x" for x
    by (simp add: env0_def)
  have i: "u_id alice = ''u1''" "u_id carol = ''u3''" "u_id bob = ''u2''"
    by (simp_all add: alice_def carol_def bob_def)
  have w: "users world1 = [alice, bob, carol]"
    by (simp add: world1_def)
  from deleteUser_self_and_other [of ?self alice world1 alice env0] p u f nf i w
  have s: "r_outcome (deleteUser env0 world1 ?self)
     = Next (AppError ''You cannot delete your own account'' 403)
   \<and> users (r_world (deleteUser env0 world1 ?self)) = [alice, bob, carol]"
    by simp
  from deleteUser_self_and_other [of request0 carol world1 alice env0] p u f nf i w
  have t: "r_outcome (deleteUser env0 world1 request0)
     = Respond 204 (BodyMessage ''User deleted successfully'')
   \<and> users (r_world (deleteUser env0 world1 request0)) = [bob, carol]"
    by simp
  from s t show ?thesis by simp
qed

text \<open>
  C9, as amended. The \<open>isActive\<close> value register hands to the store is the body's own
  value when that value is truthy and \<open>true\<close> otherwise. It is therefore always truthy,
  and it is \<open>true\<close> whenever the body's value is \<open>true\<close> or falsy, an explicit
  \<open>false\<close> included; when the store accepts the document, that document is the one added.
\<close>

theorem register_isActive:
  "u_isActive (registeredUser e req)
     = (if truthy (getProp (body req) ''isActive'') then getProp (body req) ''isActive''
        else JBool True)
   \<and> truthy (u_isActive (registeredUser e req))
   \<and> (getProp (body req) ''isActive'' = JBool True \<or> \<not> truthy (getProp (body req) ''isActive'')
      \<longrightarrow> u_isActive (registeredUser e req) = JBool True)
   \<and> (\<not> faults e (CreateUser (registeredUser e req))
      \<longrightarrow> users (r_world (register e w req)) = users w @ [registeredUser e req])"
  by (simp add: registeredUser_def register_def createSendToken_def js_or_def Let_def)

text \<open>
  The theorem at a body with \<open>isActive = false\<close>: the user is stored as active.
\<close>

theorem register_isActive_witness:
  "u_isActive (registeredUser env0 (credentials [(''isActive'', JBool False)])) = JBool True
   \<and> map u_isActive (users (r_world (register env0 world1
        (credentials [(''isActive'', JBool False)]))))
       = [JBool True, JBool False, JBool True, JBool True]"
proof -
  let ?r = "credentials [(''isActive'', JBool False)]"
  have h: "\<not> truthy (getProp (body ?r) ''isActive'')"
    by (simp add: credentials_def request0_def getProp_def)
  have nf: "\<not> faults env0 x" for x
    by (simp add: env0_def)
  have w: "map u_isActive (users world1) = [JBool True, JBool False, JBool True]"
    by (simp add: world1_def alice_def bob_def carol_def)
  from register_isActive [of env0 ?r world1] h nf w
  show ?thesis by simp
qed

text \<open>
  C9 as stated fails: with the string \<open>false\<close> in the body, the expression yields
  that string, and the stored flag is not \<open>true\<close>.
\<close>

theorem register_isActive_counterexample:
  "map u_isActive (users (r_world (register env0 world1
      (credentials [(''isActive'', JStr ''false'')]))))
     = [JBool True, JBool False, JBool True, JStr ''false'']"
  by (simp add: credentials_def sample_defs auth_defs getProp_def js_or_def Let_def)

text \<open>
  C10, as amended. A token issued by \<open>createSendToken\<close> carries no expiry; only the
  cookie set with it has one, a day after issue. Under the same secret such a token
  verifies at any later time, and a guard whose user lookup answers rejects it exactly when
  its user is no longer stored or the user's password-change check holds; it lets the
  request pass otherwise.
\<close>

theorem createSendToken_never_expires:
  "jwt_exp (issuedToken e u) = None
   \<and> r_trace (createSendToken e w u status)
       = [EvCookie ''jwt'' (serialise e (issuedToken e u)) (nowMs e + 86400000)]
   \<and> r_outcome (createSendToken e w u status)
       = Respond status (BodyAuth (serialise e (issuedToken e u)) (u\<lparr>u_password := JUndefined\<rparr>))
   \<and> (\<forall>e'. secret e' = secret e
            \<and> parseToken e' (serialise e (issuedToken e u)) = Some (issuedToken e u)
        \<longrightarrow> verifyToken e' (serialise e (issuedToken e u)) = Inr (issuedToken e u))
   \<and> (\<forall>e' w' req. secret e' = secret e
            \<and> parseToken e' (serialise e (issuedToken e u)) = Some (issuedToken e u)
            \<and> getToken req = Some (serialise e (issuedToken e u))
            \<and> serialise e (issuedToken e u) \<noteq> []
            \<and> \<not> faults e' (FindUserById (u_id u))
        \<longrightarrow> r_outcome (protect e' w' req)
             = (case findUserById (users w') (u_id u) of
                  None \<Rightarrow> Next (AppError ''User no longer exists'' 401)
                | Some cu \<Rightarrow>
                    if changedPasswordAfter cu (clock e)
                    then Next (AppError ''Password changed - please log in again'' 401)
                    else Proceed cu))"
proof -
  let ?t = "issuedToken e u"
  have x: "jwt_exp ?t = None" and i: "jwt_id ?t = u_id u" and a: "jwt_iat ?t = clock e"
    and k: "jwt_key ?t = secret e"
    by (simp_all add: issuedToken_def jwt_sign_def)
  have v: "verifyToken e' (serialise e ?t) = Inr ?t"
    if "secret e' = secret e" and "parseToken e' (serialise e ?t) = Some ?t" for e'
    using that x k by (simp add: verifyToken_def jwt_verify_def)
  have p: "r_outcome (protect e' w' req)
             = (case findUserById (users w') (u_id u) of
                  None \<Rightarrow> Next (AppError ''User no longer exists'' 401)
                | Some cu \<Rightarrow>
                    if changedPasswordAfter cu (clock e)
                    then Next (AppError ''Password changed - please log in again'' 401)
                    else Proceed cu)"
    if "secret e' = secret e" and "parseToken e' (serialise e ?t) = Some ?t"
      and "getToken req = Some (serialise e ?t)" and "serialise e ?t \<noteq> []"
      and "\<not> faults e' (FindUserById (u_id u))" for e' w' req
    using that v [OF that(1,2)] i a
    by (simp add: protect_def reject_def split: option.splits)
  have c: "r_trace (createSendToken e w u status)
       = [EvCookie ''jwt'' (serialise e ?t) (nowMs e + 86400000)]
   \<and> r_outcome (createSendToken e w u status)
       = Respond status (BodyAuth (serialise e ?t) (u\<lparr>u_password := JUndefined\<rparr>))"
    by (simp add: createSendToken_def Let_def)
  from x c v p show ?thesis by blast
qed

text \<open>
  The theorem at Alice's token, presented some 127 years after issue: it verifies and the
  guard lets the request pass.
\<close>

theorem createSendToken_never_expires_witness:
  "r_trace (createSendToken env0 world1 alice 200) = [EvCookie ''jwt'' ''tok'' 93400000]
   \<and> clock later - clock env0 = 3999993000
   \<and> verifyToken later ''tok'' = Inr (issuedToken env0 alice)
   \<and> r_outcome (protect later world1 (request0\<lparr>cookie_jwt := Some ''tok''\<rparr>)) = Proceed alice"
proof -
  have s: "serialise env0 (issuedToken env0 alice) = ''tok''"
    by (simp add: env0_def)
  have h1: "secret later = secret env0"
    by (simp add: later_def)
  have h2: "parseToken later ''tok'' = Some (issuedToken env0 alice)"
    by (simp add: later_def)
  have h3: "getToken (request0\<lparr>cookie_jwt := Some ''tok''\<rparr>) = Some ''tok''"
    by (simp add: request0_def getToken_def)
  have h4: "\<not> faults later (FindUserById (u_id alice))"
    by (simp add: later_def env0_def)
  note h = h1 h2 h3 h4
  have f: "findUserById (users world1) (u_id alice) = Some alice"
    by (simp add: world1_def findUserById_def alice_def)
  have n: "\<not> changedPasswordAfter alice (clock env0)"
    by (simp add: changedPasswordAfter_def alice_def)
  have k: "nowMs env0 + 86400000 = 93400000" "clock later - clock env0 = 3999993000"
    by (simp_all add: env0_def later_def clock_def)
  from createSendToken_never_expires [of env0 alice world1 200] h s f n k
  show ?thesis by simp
qed

text \<open>
  C10 as stated fails: Alice never changed her password, yet once Carol has deleted her
  account the guard rejects her token.
\<close>

theorem createSendToken_never_expires_counterexample:
  "r_trace (createSendToken env0 world1 alice 200) = [EvCookie ''jwt'' ''tok'' 93400000]
   \<and> u_passwordChangedAt alice = None
   \<and> r_outcome (deleteUser env0 world1 request0)
       = Respond 204 (BodyMessage ''User deleted successfully'')
   \<and> r_outcome (protect later (r_world (deleteUser env0 world1 request0))
        (request0\<lparr>cookie_jwt := Some ''tok''\<rparr>))
       = Next (AppError ''User no longer exists'' 401)"
  by (simp add: sample_defs auth_defs findUserById_def Let_def)

end
